theory Spec2Isabelle
  imports Main
begin

section \<open>cint: validation orchestration and diagnostic extraction\<close>

text \<open>
  A shallow embedding of \<^verbatim>\<open>validate.go\<close> and of \<^verbatim>\<open>determineExitCode\<close> from
  \<^verbatim>\<open>main.go\<close>. Go strings are byte sequences and are modelled as \<^typ>\<open>string\<close>;
  Go's \<^verbatim>\<open>int\<close> is modelled as \<^typ>\<open>int\<close> (no arithmetic is performed on it, only
  comparison with zero). A nil slice and an empty slice are both the empty list.
\<close>

subsection \<open>Data model\<close>

text \<open>\<^verbatim>\<open>type ValidationError struct { Line int; Field string; Problem string }\<close>.
  The field \<^verbatim>\<open>Field\<close> is primed because \<open>Field\<close> is a constant of HOL.\<close>

record ValidationError =
  Line :: int
  Field' :: string
  Problem :: string

text \<open>\<^verbatim>\<open>type ValidationResult struct { FileName string; IsValid bool; Errors []ValidationError }\<close>\<close>

record ValidationResult =
  FileName :: string
  IsValid :: bool
  Errors :: "ValidationError list"

subsection \<open>The collaborators: file system, CUE engine, decoders\<close>

text \<open>A source position of the CUE library; only \<^verbatim>\<open>pos.Line()\<close> is used by the code.\<close>

datatype token_Pos = token_Pos (pos_Line: int)

text \<open>
  A value of the interface \<^verbatim>\<open>errors.Error\<close> of the CUE library (one violation), seen through
  the three observations the code makes: \<^verbatim>\<open>errors.Positions(e)\<close>, \<^verbatim>\<open>e.Path()\<close> and
  \<^verbatim>\<open>e.Error()\<close>.
\<close>

datatype cue_Error =
  cue_Error (errors_Positions: "token_Pos list") (e_Path: "string list") (e_Error: string)

text \<open>
  A non-nil Go \<^verbatim>\<open>error\<close> as returned by \<^verbatim>\<open>Value.Err()\<close> and \<^verbatim>\<open>Value.Validate\<close>, seen
  through \<^verbatim>\<open>err.Error()\<close> and \<^verbatim>\<open>errors.Errors(err)\<close>. Errors of which the code only uses the
  message (\<^verbatim>\<open>os.ReadFile\<close>, \<^verbatim>\<open>yaml.Extract\<close>, \<^verbatim>\<open>json.Extract\<close>) are modelled by that message.
\<close>

datatype go_error = go_error (err_Error: string) (errors_Errors: "cue_Error list")

text \<open>
  The environment of one run. The file system is only read, so it is a function from paths
  to an error message or the contents. The engine operations are functions of their
  arguments: the engine is a given, and the \<^verbatim>\<open>*cue.Context\<close> handle that the code threads
  through every call is the environment itself. \<open>'v\<close> is \<^verbatim>\<open>cue.Value\<close>, \<open>'f\<close> is
  \<^verbatim>\<open>*ast.File\<close>, \<open>'e\<close> is \<^verbatim>\<open>ast.Expr\<close>. \<open>IsPathSeparator\<close> is \<^verbatim>\<open>os.IsPathSeparator\<close>
  (platform dependent) and \<open>unicode_ToLower\<close> is what \<^verbatim>\<open>strings.ToLower\<close> does on a string
  that is not pure ASCII.
\<close>

record ('v, 'f, 'e) env =
  ReadFile :: "string \<Rightarrow> string + string"
  CompileBytes :: "string \<Rightarrow> string \<Rightarrow> 'v"
  Err :: "'v \<Rightarrow> go_error option"
  yaml_Extract :: "string \<Rightarrow> string \<Rightarrow> string + 'f"
  json_Extract :: "string \<Rightarrow> string \<Rightarrow> string + 'e"
  BuildFile :: "'f \<Rightarrow> 'v"
  BuildExpr :: "'e \<Rightarrow> 'v"
  LookupPath :: "'v \<Rightarrow> string \<Rightarrow> 'v"
  Exists :: "'v \<Rightarrow> bool"
  Unify :: "'v \<Rightarrow> 'v \<Rightarrow> 'v"
  Validate :: "'v \<Rightarrow> go_error option"
  IsPathSeparator :: "char \<Rightarrow> bool"
  unicode_ToLower :: "string \<Rightarrow> string"

text \<open>
  The calls the code makes to its collaborators, recorded in the order they happen. Every
  function that calls out takes the log so far and returns the extended log.
\<close>

datatype event =
  EvReadFile string
| EvCompileBytes string
| EvYAMLExtract string
| EvJSONExtract string
| EvBuildFile
| EvBuildExpr
| EvLookupPath string
| EvUnify
| EvValidate

type_synonym log = "event list"

subsection \<open>Standard-library string functions used by the code\<close>

definition dquote :: char where
  "dquote = CHR 0x22"

text \<open>\<^verbatim>\<open>strings.HasPrefix(s, prefix)\<close>\<close>

definition strings_HasPrefix :: "string \<Rightarrow> string \<Rightarrow> bool" where
  "strings_HasPrefix s pre = (take (length pre) s = pre)"

text \<open>\<^verbatim>\<open>strings.Trim(s, cutset)\<close> for a cutset of ASCII bytes: strip them at both ends.\<close>

definition strings_Trim :: "string \<Rightarrow> string \<Rightarrow> string" where
  "strings_Trim s cutset =
     rev (dropWhile (\<lambda>c. c \<in> set cutset) (rev (dropWhile (\<lambda>c. c \<in> set cutset) s)))"

text \<open>\<^verbatim>\<open>strings.Join(elems, sep)\<close>\<close>

fun strings_Join :: "string list \<Rightarrow> string \<Rightarrow> string" where
  "strings_Join [] sep = []"
| "strings_Join [x] sep = x"
| "strings_Join (x # y # ys) sep = x @ sep @ strings_Join (y # ys) sep"

text \<open>
  \<^verbatim>\<open>strings.ToLower\<close>: on a pure ASCII string the letters A to Z are moved to a to z and
  every other byte is kept; any other string is mapped by \<^verbatim>\<open>unicode.ToLower\<close>.
\<close>

definition ascii_lower :: "char \<Rightarrow> char" where
  "ascii_lower c =
     (let n = (of_char c :: nat) in if 65 \<le> n \<and> n \<le> 90 then char_of (n + 32) else c)"

definition strings_ToLower :: "('v, 'f, 'e) env \<Rightarrow> string \<Rightarrow> string" where
  "strings_ToLower env s =
     (if list_all (\<lambda>c. (of_char c :: nat) < 128) s then map ascii_lower s
      else unicode_ToLower env s)"

text \<open>
  \<^verbatim>\<open>filepath.Ext(path)\<close>: scan from the last byte towards the first, stop at a path separator,
  return the suffix that starts at the first dot met. The first argument of the loop is
  the part of the path not scanned yet, reversed; the second is what has been scanned.
\<close>

fun Ext_loop :: "(char \<Rightarrow> bool) \<Rightarrow> string \<Rightarrow> string \<Rightarrow> string" where
  "Ext_loop sep [] scanned = []"
| "Ext_loop sep (c # rest) scanned =
     (if sep c then []
      else if c = CHR ''.'' then c # scanned
      else Ext_loop sep rest (c # scanned))"

definition filepath_Ext :: "('v, 'f, 'e) env \<Rightarrow> string \<Rightarrow> string" where
  "filepath_Ext env path = Ext_loop (IsPathSeparator env) (rev path) []"

subsection \<open>Diagnostic extraction\<close>

text \<open>\<^verbatim>\<open>isValidPathElement\<close>\<close>

definition isValidPathElement :: "string \<Rightarrow> bool" where
  "isValidPathElement p = (p \<noteq> [] \<and> \<not> strings_HasPrefix p ''['' \<and> p \<noteq> ''#Config'')"

text \<open>\<^verbatim>\<open>formatPath\<close>: the loop appends to \<^verbatim>\<open>parts\<close>, then the parts are joined with a dot.\<close>

fun formatPath_loop :: "string list \<Rightarrow> string list \<Rightarrow> string list" where
  "formatPath_loop [] parts = parts"
| "formatPath_loop (p # ps) parts =
     (if \<not> isValidPathElement p then formatPath_loop ps parts
      else formatPath_loop ps (parts @ [strings_Trim p [dquote]]))"

definition formatPath :: "string list \<Rightarrow> string" where
  "formatPath path = strings_Join (formatPath_loop path []) ''.''"

text \<open>\<^verbatim>\<open>extractFieldPath\<close>\<close>

definition extractFieldPath :: "cue_Error \<Rightarrow> string" where
  "extractFieldPath e = (let path = e_Path e in if length path = 0 then [] else formatPath path)"

text \<open>\<^verbatim>\<open>extractLineNumber\<close>: the loop over the positions returns at the first positive line.\<close>

fun extractLineNumber_loop :: "token_Pos list \<Rightarrow> int" where
  "extractLineNumber_loop [] = 0"
| "extractLineNumber_loop (pos # positions) =
     (let line = pos_Line pos in if line > 0 then line else extractLineNumber_loop positions)"

definition extractLineNumber :: "cue_Error \<Rightarrow> int" where
  "extractLineNumber e = extractLineNumber_loop (errors_Positions e)"

text \<open>\<^verbatim>\<open>extractSingleError\<close>\<close>

definition extractSingleError :: "cue_Error \<Rightarrow> ValidationError" where
  "extractSingleError e =
     \<lparr>Line = extractLineNumber e, Field' = extractFieldPath e, Problem = e_Error e\<rparr>"

text \<open>\<^verbatim>\<open>extractValidationErrors\<close>\<close>

fun extractValidationErrors_loop :: "cue_Error list \<Rightarrow> ValidationError list \<Rightarrow> ValidationError list" where
  "extractValidationErrors_loop [] validationErrors = validationErrors"
| "extractValidationErrors_loop (e # es) validationErrors =
     extractValidationErrors_loop es (validationErrors @ [extractSingleError e])"

definition extractValidationErrors :: "go_error \<Rightarrow> ValidationError list" where
  "extractValidationErrors err =
     (let cueErrors = errors_Errors err in
      if length cueErrors = 0 then [\<lparr>Line = 0, Field' = [], Problem = err_Error err\<rparr>]
      else extractValidationErrors_loop cueErrors [])"

subsection \<open>Result constructors\<close>

text \<open>\<^verbatim>\<open>createErrorResult\<close>\<close>

definition createErrorResult :: "string \<Rightarrow> string \<Rightarrow> ValidationResult" where
  "createErrorResult fileName problem =
     \<lparr>FileName = fileName, IsValid = False,
      Errors = [\<lparr>Line = 0, Field' = [], Problem = problem\<rparr>]\<rparr>"

text \<open>\<^verbatim>\<open>createValidationErrorResult\<close>\<close>

definition createValidationErrorResult :: "string \<Rightarrow> go_error \<Rightarrow> ValidationResult" where
  "createValidationErrorResult fileName err =
     \<lparr>FileName = fileName, IsValid = False, Errors = extractValidationErrors err\<rparr>"

text \<open>\<^verbatim>\<open>createSchemaErrorResults\<close>; the second argument is \<^verbatim>\<open>err\<close> rendered by \<^verbatim>\<open>%v\<close>.\<close>

fun createSchemaErrorResults_loop :: "string list \<Rightarrow> string \<Rightarrow> ValidationResult list \<Rightarrow> ValidationResult list" where
  "createSchemaErrorResults_loop [] errorMsg results = results"
| "createSchemaErrorResults_loop (path # paths) errorMsg results =
     createSchemaErrorResults_loop paths errorMsg
       (results @ [\<lparr>FileName = path, IsValid = False,
                    Errors = [\<lparr>Line = 0, Field' = [], Problem = errorMsg\<rparr>]\<rparr>])"

definition createSchemaErrorResults :: "string list \<Rightarrow> string \<Rightarrow> ValidationResult list" where
  "createSchemaErrorResults configPaths err =
     (let errorMsg = ''failed to load schema: '' @ err in
      createSchemaErrorResults_loop configPaths errorMsg [])"

subsection \<open>Schema loading, decoding, validation of one file\<close>

text \<open>\<^verbatim>\<open>loadSchema\<close>; the error is its message (\<^verbatim>\<open>%w\<close> renders the wrapped error's message).\<close>

definition loadSchema :: "('v, 'f, 'e) env \<Rightarrow> string \<Rightarrow> log \<Rightarrow> (string + 'v) \<times> log" where
  "loadSchema env schemaPath t =
     (case ReadFile env schemaPath of
        Inl err \<Rightarrow> (Inl (''reading schema file: '' @ err), t @ [EvReadFile schemaPath])
      | Inr schemaData \<Rightarrow>
          (let schema = CompileBytes env schemaData schemaPath;
               t' = t @ [EvReadFile schemaPath, EvCompileBytes schemaPath]
           in case Err env schema of
                Some err \<Rightarrow> (Inl (''compiling schema: '' @ err_Error err), t')
              | None \<Rightarrow> (Inr schema, t')))"

text \<open>\<^verbatim>\<open>parseYAML\<close>\<close>

definition parseYAML :: "('v, 'f, 'e) env \<Rightarrow> string \<Rightarrow> string \<Rightarrow> log \<Rightarrow> (string + 'v) \<times> log" where
  "parseYAML env configPath configData t =
     (case yaml_Extract env configPath configData of
        Inl err \<Rightarrow> (Inl (''failed to parse YAML: '' @ err), t @ [EvYAMLExtract configPath])
      | Inr file \<Rightarrow> (Inr (BuildFile env file), t @ [EvYAMLExtract configPath, EvBuildFile]))"

text \<open>\<^verbatim>\<open>parseJSON\<close>\<close>

definition parseJSON :: "('v, 'f, 'e) env \<Rightarrow> string \<Rightarrow> string \<Rightarrow> log \<Rightarrow> (string + 'v) \<times> log" where
  "parseJSON env configPath configData t =
     (case json_Extract env configPath configData of
        Inl err \<Rightarrow> (Inl (''failed to parse JSON: '' @ err), t @ [EvJSONExtract configPath])
      | Inr expr \<Rightarrow> (Inr (BuildExpr env expr), t @ [EvJSONExtract configPath, EvBuildExpr]))"

text \<open>\<^verbatim>\<open>parseConfigFile\<close>\<close>

definition parseConfigFile :: "('v, 'f, 'e) env \<Rightarrow> string \<Rightarrow> string \<Rightarrow> log \<Rightarrow> (string + 'v) \<times> log" where
  "parseConfigFile env configPath configData t =
     (let ext = strings_ToLower env (filepath_Ext env configPath) in
      if ext = ''.yaml'' \<or> ext = ''.yml'' then parseYAML env configPath configData t
      else if ext = ''.json'' then parseJSON env configPath configData t
      else (Inl (''unsupported file format: '' @ ext @ '' (supported: .yaml, .yml, .json)''), t))"

text \<open>\<^verbatim>\<open>validateFile\<close>\<close>

definition validateFile :: "('v, 'f, 'e) env \<Rightarrow> 'v \<Rightarrow> string \<Rightarrow> log \<Rightarrow> ValidationResult \<times> log" where
  "validateFile env schema configPath t =
     (case ReadFile env configPath of
        Inl err \<Rightarrow>
          (createErrorResult configPath (''failed to read file: '' @ err),
           t @ [EvReadFile configPath])
      | Inr configData \<Rightarrow>
          (case parseConfigFile env configPath configData (t @ [EvReadFile configPath]) of
             (Inl err, t1) \<Rightarrow> (createErrorResult configPath err, t1)
           | (Inr config, t1) \<Rightarrow>
               (case Err env config of
                  Some err \<Rightarrow> (createValidationErrorResult configPath err, t1)
                | None \<Rightarrow>
                    (let configDef = LookupPath env schema ''#Config'';
                         t2 = t1 @ [EvLookupPath ''#Config'']
                     in if \<not> Exists env configDef
                        then (createErrorResult configPath ''schema does not define #Config'', t2)
                        else
                          (let unified = Unify env configDef config;
                               t3 = t2 @ [EvUnify, EvValidate]
                           in case Validate env unified of
                                Some err \<Rightarrow> (createValidationErrorResult configPath err, t3)
                              | None \<Rightarrow>
                                  (\<lparr>FileName = configPath, IsValid = True, Errors = []\<rparr>, t3))))))"

subsection \<open>The batch\<close>

text \<open>\<^verbatim>\<open>ValidateFiles\<close>: the loop appends one result per config path.\<close>

fun ValidateFiles_loop ::
  "('v, 'f, 'e) env \<Rightarrow> 'v \<Rightarrow> string list \<Rightarrow> ValidationResult list \<Rightarrow> log \<Rightarrow> ValidationResult list \<times> log" where
  "ValidateFiles_loop env schema [] results t = (results, t)"
| "ValidateFiles_loop env schema (configPath # configPaths) results t =
     (case validateFile env schema configPath t of
        (result, t') \<Rightarrow> ValidateFiles_loop env schema configPaths (results @ [result]) t')"

definition ValidateFiles ::
  "('v, 'f, 'e) env \<Rightarrow> string \<Rightarrow> string list \<Rightarrow> log \<Rightarrow> ValidationResult list \<times> log" where
  "ValidateFiles env schemaPath configPaths t =
     (case loadSchema env schemaPath t of
        (Inl err, t') \<Rightarrow> (createSchemaErrorResults configPaths err, t')
      | (Inr schema, t') \<Rightarrow> ValidateFiles_loop env schema configPaths [] t')"

text \<open>\<^verbatim>\<open>determineExitCode\<close> (\<^verbatim>\<open>main.go\<close>)\<close>

fun determineExitCode :: "ValidationResult list \<Rightarrow> int" where
  "determineExitCode [] = 0"
| "determineExitCode (result # results) =
     (if \<not> IsValid result then 1 else determineExitCode results)"

subsection \<open>A small concrete environment\<close>

text \<open>
  A toy engine on which the definitions can be evaluated: values, files and expressions are
  strings, a schema defines \<^verbatim>\<open>#Config\<close> when its text starts with that name, unification
  succeeds on equal texts, and a failed validation reports one violation.
\<close>

definition test_engine :: "(string \<Rightarrow> string + string) \<Rightarrow> (string, string, string) env" where
  "test_engine fs =
     \<lparr>ReadFile = fs,
      CompileBytes = (\<lambda>data name. data),
      Err = (\<lambda>v. if v = ''bad'' then Some (go_error ''syntax error'' []) else None),
      yaml_Extract = (\<lambda>path data. if data = ''?'' then Inl ''malformed'' else Inr data),
      json_Extract = (\<lambda>path data. if data = ''?'' then Inl ''malformed'' else Inr data),
      BuildFile = (\<lambda>file. file),
      BuildExpr = (\<lambda>expr. expr),
      LookupPath = (\<lambda>v p. if strings_HasPrefix v p then drop (length p) v else []),
      Exists = (\<lambda>v. v \<noteq> []),
      Unify = (\<lambda>d c. if d = c then c else ''_|_''),
      Validate = (\<lambda>v. if v = ''_|_''
         then Some (go_error ''a: conflicting values''
                [cue_Error [token_Pos 0, token_Pos 2] [''#Config'', ''a''] ''a: conflicting values''])
         else None),
      IsPathSeparator = (\<lambda>c. c = CHR ''/''),
      unicode_ToLower = (\<lambda>s. s)\<rparr>"

definition test_fs :: "string \<Rightarrow> string + string" where
  "test_fs p =
     (if p = ''schema.cue'' then Inr ''#Config{a:1}''
      else if p = ''nodef.cue'' then Inr ''{a:1}''
      else if p = ''bad.cue'' then Inr ''bad''
      else if p = ''ok.yaml'' then Inr ''{a:1}''
      else if p = ''other.JSON'' then Inr ''{a:2}''
      else if p = ''c.toml'' then Inr ''a = 1''
      else Inl (''open '' @ p @ '': no such file or directory''))"

text \<open>The same files, except that \<^verbatim>\<open>other.JSON\<close> cannot be read.\<close>

definition test_fs' :: "string \<Rightarrow> string + string" where
  "test_fs' p =
     (if p = ''other.JSON'' then Inl ''open other.JSON: permission denied'' else test_fs p)"

section \<open>Properties\<close>

subsection \<open>Loops as maps, and the log as an extension\<close>

lemma createSchemaErrorResults_loop_eq:
  "createSchemaErrorResults_loop paths errorMsg results =
     results @ map (\<lambda>path. \<lparr>FileName = path, IsValid = False,
                     Errors = [\<lparr>Line = 0, Field' = [], Problem = errorMsg\<rparr>]\<rparr>) paths"
  by (induction paths arbitrary: results) simp_all

lemma extractValidationErrors_loop_eq:
  "extractValidationErrors_loop es acc = acc @ map extractSingleError es"
  by (induction es arbitrary: acc) simp_all

lemma formatPath_loop_eq:
  "formatPath_loop ps parts =
     parts @ map (\<lambda>p. strings_Trim p [dquote]) (filter isValidPathElement ps)"
  by (induction ps arbitrary: parts) simp_all

lemma extractValidationErrors_not_Nil: "extractValidationErrors err \<noteq> []"
  by (simp add: extractValidationErrors_def extractValidationErrors_loop_eq Let_def)

lemma parseConfigFile_log:
  "parseConfigFile env p d t = (fst (parseConfigFile env p d []), t @ snd (parseConfigFile env p d []))"
  by (simp add: parseConfigFile_def parseYAML_def parseJSON_def Let_def split: sum.splits)

lemma validateFile_log:
  "validateFile env schema p t =
     (fst (validateFile env schema p []), t @ snd (validateFile env schema p []))"
proof (cases "ReadFile env p")
  case (Inl err)
  then show ?thesis by (simp add: validateFile_def)
next
  case (Inr d)
  obtain r es where pc: "parseConfigFile env p d [] = (r, es)"
    by (cases "parseConfigFile env p d []")
  have a: "parseConfigFile env p d (t @ [EvReadFile p]) = (r, t @ EvReadFile p # es)"
    using parseConfigFile_log [of env p d "t @ [EvReadFile p]"] pc by simp
  have b: "parseConfigFile env p d [EvReadFile p] = (r, EvReadFile p # es)"
    using parseConfigFile_log [of env p d "[EvReadFile p]"] pc by simp
  show ?thesis
    by (simp add: validateFile_def Inr a b Let_def split: sum.splits option.splits)
qed

lemma ValidateFiles_loop_eq:
  "ValidateFiles_loop env schema ps results t =
     (results @ map (\<lambda>p. fst (validateFile env schema p [])) ps,
      t @ concat (map (\<lambda>p. snd (validateFile env schema p [])) ps))"
proof (induction ps arbitrary: results t)
  case Nil
  show ?case by simp
next
  case (Cons p ps)
  show ?case
    using validateFile_log [of env schema p t] by (simp add: Cons.IH)
qed

lemma validateFile_FileName: "FileName (fst (validateFile env schema p t)) = p"
  by (simp add: validateFile_def createErrorResult_def createValidationErrorResult_def Let_def
      split: sum.splits option.splits prod.splits)

lemma validateFile_consistent:
  "IsValid (fst (validateFile env schema p t)) = (Errors (fst (validateFile env schema p t)) = [])"
  by (simp add: validateFile_def createErrorResult_def createValidationErrorResult_def Let_def
      extractValidationErrors_not_Nil split: sum.splits option.splits prod.splits)

lemma ValidateFiles_cases:
  "ValidateFiles env sp ps t =
     (case loadSchema env sp t of
        (Inl err, t') \<Rightarrow>
           (map (\<lambda>path. \<lparr>FileName = path, IsValid = False,
                   Errors = [\<lparr>Line = 0, Field' = [], Problem = ''failed to load schema: '' @ err\<rparr>]\<rparr>) ps, t')
      | (Inr schema, t') \<Rightarrow>
           (map (\<lambda>p. fst (validateFile env schema p [])) ps,
            t' @ concat (map (\<lambda>p. snd (validateFile env schema p [])) ps)))"
  by (simp add: ValidateFiles_def createSchemaErrorResults_def createSchemaErrorResults_loop_eq
      ValidateFiles_loop_eq Let_def split: prod.splits sum.splits)

subsection \<open>The batch orchestrator\<close>

text \<open>
  C1. For every schema path and every list of config paths, \<open>ValidateFiles\<close> returns exactly
  one \<open>ValidationResult\<close> per requested config path, in the order of the input paths (the
  file names of the results are the input paths). This holds for the function as a whole
  and for each of its two branches: \<open>createSchemaErrorResults\<close> when the schema cannot be
  loaded, and the loop over the files otherwise.
\<close>

theorem ValidateFiles_one_result_per_path:
  "length (fst (ValidateFiles env schemaPath configPaths t)) = length configPaths
   \<and> map FileName (fst (ValidateFiles env schemaPath configPaths t)) = configPaths
   \<and> length (createSchemaErrorResults configPaths err) = length configPaths
   \<and> map FileName (createSchemaErrorResults configPaths err) = configPaths
   \<and> length (fst (ValidateFiles_loop env schema configPaths [] t)) = length configPaths
   \<and> map FileName (fst (ValidateFiles_loop env schema configPaths [] t)) = configPaths"
  by (simp add: ValidateFiles_cases createSchemaErrorResults_def createSchemaErrorResults_loop_eq
      ValidateFiles_loop_eq validateFile_FileName comp_def split: prod.splits sum.splits)

theorem ValidateFiles_one_result_per_path_witness:
  "length (fst (ValidateFiles (test_engine test_fs) ''schema.cue'' [''ok.yaml'', ''other.JSON''] [])) = 2
   \<and> map FileName (fst (ValidateFiles (test_engine test_fs) ''schema.cue'' [''ok.yaml'', ''other.JSON''] []))
       = [''ok.yaml'', ''other.JSON'']
   \<and> length (fst (ValidateFiles (test_engine test_fs) ''bad.cue'' [''ok.yaml'', ''other.JSON''] [])) = 2
   \<and> map FileName (fst (ValidateFiles (test_engine test_fs) ''bad.cue'' [''ok.yaml'', ''other.JSON''] []))
       = [''ok.yaml'', ''other.JSON'']"
  using ValidateFiles_one_result_per_path
          [of "test_engine test_fs" "''schema.cue''" "[''ok.yaml'', ''other.JSON'']" "[]" "[]" "[]"]
        ValidateFiles_one_result_per_path
          [of "test_engine test_fs" "''bad.cue''" "[''ok.yaml'', ''other.JSON'']" "[]" "[]" "[]"]
  by simp

text \<open>
  C2. For every \<open>ValidationResult\<close> produced by \<open>ValidateFiles\<close>, \<open>IsValid\<close> is true if and
  only if the \<open>Errors\<close> list is empty: no result is valid with errors or invalid without.
\<close>

theorem ValidateFiles_valid_iff_no_errors:
  "r \<in> set (fst (ValidateFiles env schemaPath configPaths t)) \<Longrightarrow> IsValid r = (Errors r = [])"
  by (auto simp add: ValidateFiles_cases validateFile_consistent split: prod.splits sum.splits)

text \<open>A run of the batch on the toy environment: one valid file, one violating file.\<close>

lemma test_run:
  "ValidateFiles (test_engine test_fs) ''schema.cue'' [''ok.yaml'', ''other.JSON''] [] =
     ([\<lparr>FileName = ''ok.yaml'', IsValid = True, Errors = []\<rparr>,
       \<lparr>FileName = ''other.JSON'', IsValid = False,
        Errors = [\<lparr>Line = 2, Field' = ''a'', Problem = ''a: conflicting values''\<rparr>]\<rparr>],
      [EvReadFile ''schema.cue'', EvCompileBytes ''schema.cue'',
       EvReadFile ''ok.yaml'', EvYAMLExtract ''ok.yaml'', EvBuildFile,
       EvLookupPath ''#Config'', EvUnify, EvValidate, EvReadFile ''other.JSON'',
       EvJSONExtract ''other.JSON'', EvBuildExpr, EvLookupPath ''#Config'',
       EvUnify, EvValidate])"
  by code_simp

theorem ValidateFiles_valid_iff_no_errors_witness:
  "\<lparr>FileName = ''ok.yaml'', IsValid = True, Errors = []\<rparr>
     \<in> set (fst (ValidateFiles (test_engine test_fs) ''schema.cue'' [''ok.yaml'', ''other.JSON''] []))
   \<and> IsValid \<lparr>FileName = ''ok.yaml'', IsValid = True, Errors = []\<rparr>
       = (Errors \<lparr>FileName = ''ok.yaml'', IsValid = True, Errors = []\<rparr> = [])"
proof -
  have h: "\<lparr>FileName = ''ok.yaml'', IsValid = True, Errors = []\<rparr>
     \<in> set (fst (ValidateFiles (test_engine test_fs) ''schema.cue'' [''ok.yaml'', ''other.JSON''] []))"
    by (simp add: test_run)
  show ?thesis
    using h ValidateFiles_valid_iff_no_errors [OF h] by simp
qed

text \<open>
  C3. If loading the schema fails (the file cannot be read, or it does not compile), then
  \<open>ValidateFiles\<close> returns for every requested config path exactly one result, invalid, with
  exactly one error whose \<open>Line\<close> is 0, whose \<open>Field\<close> is empty and whose message is
  \<^verbatim>\<open>failed to load schema: \<close> followed by the failure. No config file is read or decoded:
  the only calls logged are the read of the schema file and, when that succeeded, its
  compilation.
\<close>

theorem schema_failure_results:
  assumes "loadSchema env schemaPath t = (Inl err, t')"
  shows "fst (ValidateFiles env schemaPath configPaths t) =
           map (\<lambda>path. \<lparr>FileName = path, IsValid = False,
                  Errors = [\<lparr>Line = 0, Field' = [],
                             Problem = ''failed to load schema: '' @ err\<rparr>]\<rparr>) configPaths
         \<and> snd (ValidateFiles env schemaPath configPaths t) = t'
         \<and> (t' = t @ [EvReadFile schemaPath]
            \<or> t' = t @ [EvReadFile schemaPath, EvCompileBytes schemaPath])
         \<and> (\<exists>cause. err = ''reading schema file: '' @ cause \<or> err = ''compiling schema: '' @ cause)"
proof -
  have "fst (ValidateFiles env schemaPath configPaths t) =
           map (\<lambda>path. \<lparr>FileName = path, IsValid = False,
                  Errors = [\<lparr>Line = 0, Field' = [],
                             Problem = ''failed to load schema: '' @ err\<rparr>]\<rparr>) configPaths"
    and "snd (ValidateFiles env schemaPath configPaths t) = t'"
    using assms by (simp_all add: ValidateFiles_cases)
  moreover have "t' = t @ [EvReadFile schemaPath]
            \<or> t' = t @ [EvReadFile schemaPath, EvCompileBytes schemaPath]"
    using assms by (auto simp add: loadSchema_def Let_def split: sum.splits option.splits)
  moreover have "\<exists>cause. err = ''reading schema file: '' @ cause \<or> err = ''compiling schema: '' @ cause"
    using assms by (auto simp add: loadSchema_def Let_def split: sum.splits option.splits)
  ultimately show ?thesis by blast
qed

theorem schema_failure_results_witness:
  "loadSchema (test_engine test_fs) ''bad.cue'' [] =
     (Inl ''compiling schema: syntax error'', [EvReadFile ''bad.cue'', EvCompileBytes ''bad.cue''])
   \<and> ValidateFiles (test_engine test_fs) ''bad.cue'' [''ok.yaml'', ''other.JSON''] [] =
     ([\<lparr>FileName = ''ok.yaml'', IsValid = False,
        Errors = [\<lparr>Line = 0, Field' = [],
                   Problem = ''failed to load schema: compiling schema: syntax error''\<rparr>]\<rparr>,
       \<lparr>FileName = ''other.JSON'', IsValid = False,
        Errors = [\<lparr>Line = 0, Field' = [],
                   Problem = ''failed to load schema: compiling schema: syntax error''\<rparr>]\<rparr>],
      [EvReadFile ''bad.cue'', EvCompileBytes ''bad.cue''])"
proof -
  have h: "loadSchema (test_engine test_fs) ''bad.cue'' [] =
     (Inl ''compiling schema: syntax error'', [EvReadFile ''bad.cue'', EvCompileBytes ''bad.cue''])"
    by (simp add: loadSchema_def test_engine_def test_fs_def)
  show ?thesis
    using h schema_failure_results [OF h, of "[''ok.yaml'', ''other.JSON'']"]
    by (simp add: prod_eq_iff)
qed

text \<open>
  C10. For the empty list of config paths \<open>ValidateFiles\<close> returns the empty result list,
  in the schema-failure branch (\<open>createSchemaErrorResults\<close>) as in the per-file branch (the
  loop), and \<open>determineExitCode\<close> of that empty list is 0.
\<close>

theorem ValidateFiles_no_paths:
  "fst (ValidateFiles env schemaPath [] t) = []
   \<and> createSchemaErrorResults [] err = []
   \<and> fst (ValidateFiles_loop env schema [] [] t) = []
   \<and> determineExitCode (fst (ValidateFiles env schemaPath [] t)) = 0"
  by (simp add: ValidateFiles_def createSchemaErrorResults_def split: prod.splits sum.splits)

theorem ValidateFiles_no_paths_witness:
  "fst (ValidateFiles (test_engine test_fs) ''schema.cue'' [] []) = []
   \<and> fst (ValidateFiles (test_engine test_fs) ''bad.cue'' [] []) = []
   \<and> determineExitCode (fst (ValidateFiles (test_engine test_fs) ''schema.cue'' [] [])) = 0
   \<and> determineExitCode (fst (ValidateFiles (test_engine test_fs) ''bad.cue'' [] [])) = 0"
  using ValidateFiles_no_paths [of "test_engine test_fs" "''schema.cue''" "[]" "[]" "[]"]
        ValidateFiles_no_paths [of "test_engine test_fs" "''bad.cue''" "[]" "[]" "[]"]
  by simp

subsection \<open>The diagnostic extractor\<close>

text \<open>
  C6. For every validation failure \<open>extractValidationErrors\<close> returns a non-empty list:
  one \<open>ValidationError\<close> per violation, in order, when the failure decomposes into
  violations, and otherwise exactly one fallback error with \<open>Line\<close> 0, empty \<open>Field\<close> and the
  raw message of the failure.
\<close>

theorem extractValidationErrors_one_per_violation:
  "extractValidationErrors err \<noteq> []
   \<and> extractValidationErrors err =
       (if errors_Errors err = [] then [\<lparr>Line = 0, Field' = [], Problem = err_Error err\<rparr>]
        else map extractSingleError (errors_Errors err))"
  by (simp add: extractValidationErrors_not_Nil)
     (simp add: extractValidationErrors_def extractValidationErrors_loop_eq)

theorem extractValidationErrors_one_per_violation_witness:
  "extractValidationErrors (go_error ''conflict'' []) = [\<lparr>Line = 0, Field' = [], Problem = ''conflict''\<rparr>]
   \<and> extractValidationErrors
        (go_error ''2 errors'' [cue_Error [token_Pos 4] [''#Config'', ''name''] ''name: out of bound'',
                               cue_Error [] [] ''incomplete value''])
       = [extractSingleError (cue_Error [token_Pos 4] [''#Config'', ''name''] ''name: out of bound''),
          extractSingleError (cue_Error [] [] ''incomplete value'')]"
  using extractValidationErrors_one_per_violation [of "go_error ''conflict'' []"]
        extractValidationErrors_one_per_violation
          [of "go_error ''2 errors'' [cue_Error [token_Pos 4] [''#Config'', ''name''] ''name: out of bound'',
                               cue_Error [] [] ''incomplete value'']"]
  by simp

text \<open>The loop of \<open>extractLineNumber\<close> stops at the first position with a positive line.\<close>

lemma extractLineNumber_loop_first:
  "(\<exists>i<length ps. 0 < pos_Line (ps ! i) \<and> (\<forall>j<i. pos_Line (ps ! j) \<le> 0)
        \<and> extractLineNumber_loop ps = pos_Line (ps ! i))
   \<or> ((\<forall>pos\<in>set ps. pos_Line pos \<le> 0) \<and> extractLineNumber_loop ps = 0)"
proof (induction ps)
  case Nil
  show ?case by simp
next
  case (Cons p ps)
  show ?case
  proof (cases "0 < pos_Line p")
    case True
    then have "0 < pos_Line ((p # ps) ! 0) \<and> (\<forall>j<0. pos_Line ((p # ps) ! j) \<le> 0)
        \<and> extractLineNumber_loop (p # ps) = pos_Line ((p # ps) ! 0)"
      by simp
    then show ?thesis by blast
  next
    case False
    from Cons.IH show ?thesis
    proof
      assume "\<exists>i<length ps. 0 < pos_Line (ps ! i) \<and> (\<forall>j<i. pos_Line (ps ! j) \<le> 0)
        \<and> extractLineNumber_loop ps = pos_Line (ps ! i)"
      then obtain i where i: "i < length ps" "0 < pos_Line (ps ! i)"
        "\<forall>j<i. pos_Line (ps ! j) \<le> 0" "extractLineNumber_loop ps = pos_Line (ps ! i)"
        by blast
      have "\<forall>j<Suc i. pos_Line ((p # ps) ! j) \<le> 0"
        using False i(3) by (auto simp add: less_Suc_eq_0_disj)
      with i False have "Suc i < length (p # ps) \<and> 0 < pos_Line ((p # ps) ! Suc i)
          \<and> (\<forall>j<Suc i. pos_Line ((p # ps) ! j) \<le> 0)
          \<and> extractLineNumber_loop (p # ps) = pos_Line ((p # ps) ! Suc i)"
        by simp
      then show ?thesis by blast
    next
      assume "(\<forall>pos\<in>set ps. pos_Line pos \<le> 0) \<and> extractLineNumber_loop ps = 0"
      with False show ?thesis by simp
    qed
  qed
qed

lemma extractLineNumber_loop_nonneg: "0 \<le> extractLineNumber_loop ps"
  by (induction ps) (simp_all add: Let_def)

text \<open>
  C7. For every violation, \<open>extractLineNumber\<close> returns the line of the first position, in
  the order of \<^verbatim>\<open>errors.Positions\<close>, whose line is positive, and 0 when no position has a
  positive line; the result is never negative.
\<close>

theorem extractLineNumber_first_positive:
  "0 \<le> extractLineNumber e
   \<and> ((\<exists>i<length (errors_Positions e).
          0 < pos_Line (errors_Positions e ! i)
          \<and> (\<forall>j<i. pos_Line (errors_Positions e ! j) \<le> 0)
          \<and> extractLineNumber e = pos_Line (errors_Positions e ! i))
      \<or> ((\<forall>pos\<in>set (errors_Positions e). pos_Line pos \<le> 0) \<and> extractLineNumber e = 0))"
  using extractLineNumber_loop_first [of "errors_Positions e"]
  by (simp add: extractLineNumber_def extractLineNumber_loop_nonneg)

theorem extractLineNumber_first_positive_witness:
  "0 \<le> extractLineNumber (cue_Error [token_Pos 0, token_Pos (-1), token_Pos 7, token_Pos 3] [] ''x'')
   \<and> extractLineNumber (cue_Error [token_Pos 0, token_Pos (-1), token_Pos 7, token_Pos 3] [] ''x'') = 7
   \<and> extractLineNumber (cue_Error [token_Pos 0, token_Pos (-1)] [] ''x'') = 0
   \<and> extractLineNumber (cue_Error [] [] ''x'') = 0"
  using extractLineNumber_first_positive
          [of "cue_Error [token_Pos 0, token_Pos (-1), token_Pos 7, token_Pos 3] [] ''x''"]
  by (simp add: extractLineNumber_def)

text \<open>Trimming the quote characters twice is trimming them once.\<close>

lemma strings_Trim_idem: "strings_Trim (strings_Trim s cutset) cutset = strings_Trim s cutset"
proof -
  define P where "P = (\<lambda>c. c \<in> set cutset)"
  define u where "u = dropWhile P s"
  define v where "v = rev (dropWhile P (rev u))"
  have split: "u = v @ rev (takeWhile P (rev u))"
    using takeWhile_dropWhile_id [of P "rev u"] by (simp add: v_def flip: rev_append rev_swap)
  have "dropWhile P v = v"
  proof (cases "v = []")
    case True
    then show ?thesis by simp
  next
    case False
    obtain w where uw: "u = v @ w"
      using split by (rule that)
    from False have "u \<noteq> []" and "hd v = hd u"
      by (simp_all add: uw)
    moreover have "u \<noteq> [] \<Longrightarrow> \<not> P (hd u)"
      unfolding u_def by (rule hd_dropWhile)
    ultimately have "\<not> P (hd v)" by simp
    then show ?thesis by (simp add: dropWhile_eq_self_iff)
  qed
  then have "rev (dropWhile P (rev (dropWhile P v))) = v"
    by (simp add: v_def)
  then show ?thesis
    by (simp add: strings_Trim_def P_def u_def v_def)
qed

text \<open>
  C5, as stated, fails. The filter looks at a segment before its quotes are trimmed, so a
  quoted segment \<^verbatim>\<open>"#Config"\<close> (a regular field of that name, as the engine renders it)
  is retained and formatted as \<^verbatim>\<open>#Config\<close>: the root definition name appears in the
  output, and filtering the output again drops it. The same holds for a quoted segment
  that starts with a bracket.
\<close>

theorem formatPath_quoted_Config_counterexample:
  "formatPath [dquote # ''#Config'' @ [dquote]] = ''#Config''
   \<and> formatPath_loop [dquote # ''#Config'' @ [dquote]] [] = [''#Config'']
   \<and> formatPath (formatPath_loop [dquote # ''#Config'' @ [dquote]] []) = []
   \<and> formatPath (formatPath_loop [dquote # ''#Config'' @ [dquote]] [])
       \<noteq> formatPath [dquote # ''#Config'' @ [dquote]]
   \<and> formatPath [dquote # ''[0]'' @ [dquote]] = ''[0]''
   \<and> formatPath (formatPath_loop [dquote # ''[0]'' @ [dquote]] []) = []"
proof -
  have 1: "formatPath [dquote # ''#Config'' @ [dquote]] = ''#Config''"
    by (simp add: formatPath_def isValidPathElement_def strings_HasPrefix_def strings_Trim_def
        dquote_def)
  have 2: "formatPath_loop [dquote # ''#Config'' @ [dquote]] [] = [''#Config'']"
    by (simp add: formatPath_def isValidPathElement_def strings_HasPrefix_def strings_Trim_def
        dquote_def)
  have 3: "formatPath (formatPath_loop [dquote # ''#Config'' @ [dquote]] []) = []"
    by (simp add: formatPath_def isValidPathElement_def strings_HasPrefix_def strings_Trim_def
        dquote_def)
  have 4: "formatPath (formatPath_loop [dquote # ''#Config'' @ [dquote]] [])
       \<noteq> formatPath [dquote # ''#Config'' @ [dquote]]"
    by (simp only: 1 3) simp
  have 5: "formatPath [dquote # ''[0]'' @ [dquote]] = ''[0]''"
    by (simp add: formatPath_def isValidPathElement_def strings_HasPrefix_def strings_Trim_def
        dquote_def)
  have 6: "formatPath (formatPath_loop [dquote # ''[0]'' @ [dquote]] []) = []"
    by (simp add: formatPath_def isValidPathElement_def strings_HasPrefix_def strings_Trim_def
        dquote_def)
  from 1 2 3 4 5 6 show ?thesis by (intro conjI)
qed

text \<open>
  C5, amended. \<open>formatPath\<close> drops the segments that, as given, are empty, start with an
  index bracket or equal \<^verbatim>\<open>#Config\<close>, trims the quote characters of the others and joins
  them with dots. For every segment list in which each retained segment is still a valid
  path element once its quotes are trimmed (every list without quote characters is one),
  filtering the filtered segments again yields the same segments and the same path, and
  no segment of the output is empty, starts with an index bracket or is \<^verbatim>\<open>#Config\<close>.
\<close>

theorem formatPath_idempotent_when_trim_stable:
  assumes "\<forall>p\<in>set path. isValidPathElement p \<longrightarrow> isValidPathElement (strings_Trim p [dquote])"
  shows "formatPath (formatPath_loop path []) = formatPath path
     \<and> formatPath_loop (formatPath_loop path []) [] = formatPath_loop path []
     \<and> (\<forall>q\<in>set (formatPath_loop path []).
           q \<noteq> [] \<and> \<not> strings_HasPrefix q ''['' \<and> q \<noteq> ''#Config'')
     \<and> formatPath_loop path [] =
          map (\<lambda>p. strings_Trim p [dquote])
            (filter (\<lambda>p. p \<noteq> [] \<and> \<not> strings_HasPrefix p ''['' \<and> p \<noteq> ''#Config'') path)"
proof -
  let ?T = "\<lambda>p. strings_Trim p [dquote]"
  let ?parts = "formatPath_loop path []"
  have parts: "?parts = map ?T (filter isValidPathElement path)"
    by (simp add: formatPath_loop_eq)
  have valid: "\<forall>q\<in>set ?parts. isValidPathElement q"
    using assms by (auto simp add: parts)
  then have "filter isValidPathElement ?parts = ?parts"
    by simp
  moreover have "map ?T ?parts = ?parts"
    by (simp add: parts strings_Trim_idem)
  ultimately have again: "formatPath_loop ?parts [] = ?parts"
    using formatPath_loop_eq [of ?parts "[]"] by simp
  have "formatPath ?parts = formatPath path"
    by (simp add: formatPath_def again)
  moreover have "\<forall>q\<in>set ?parts. q \<noteq> [] \<and> \<not> strings_HasPrefix q ''['' \<and> q \<noteq> ''#Config''"
    using valid by (simp add: isValidPathElement_def)
  moreover have "?parts = map ?T
            (filter (\<lambda>p. p \<noteq> [] \<and> \<not> strings_HasPrefix p ''['' \<and> p \<noteq> ''#Config'') path)"
    using parts isValidPathElement_def [abs_def] by simp
  ultimately show ?thesis
    using again by blast
qed

theorem formatPath_idempotent_when_trim_stable_witness:
  "list_all (\<lambda>p. \<not> isValidPathElement p \<or> isValidPathElement (strings_Trim p [dquote]))
      [''#Config'', ''spec'', ''[0]'', dquote # ''my-key'' @ [dquote], [], ''replicas'']
   \<and> formatPath [''#Config'', ''spec'', ''[0]'', dquote # ''my-key'' @ [dquote], [], ''replicas'']
       = ''spec.my-key.replicas''
   \<and> formatPath (formatPath_loop
         [''#Config'', ''spec'', ''[0]'', dquote # ''my-key'' @ [dquote], [], ''replicas''] [])
       = ''spec.my-key.replicas''"
proof -
  have h: "\<forall>p\<in>set [''#Config'', ''spec'', ''[0]'', dquote # ''my-key'' @ [dquote], [], ''replicas''].
       isValidPathElement p \<longrightarrow> isValidPathElement (strings_Trim p [dquote])"
    by (simp add: formatPath_def isValidPathElement_def strings_HasPrefix_def strings_Trim_def
        dquote_def)
  have v: "formatPath [''#Config'', ''spec'', ''[0]'', dquote # ''my-key'' @ [dquote], [], ''replicas'']
       = ''spec.my-key.replicas''"
    by (simp add: formatPath_def isValidPathElement_def strings_HasPrefix_def strings_Trim_def
        dquote_def)
  from formatPath_idempotent_when_trim_stable [OF h]
  have "formatPath (formatPath_loop
         [''#Config'', ''spec'', ''[0]'', dquote # ''my-key'' @ [dquote], [], ''replicas''] [])
       = formatPath [''#Config'', ''spec'', ''[0]'', dquote # ''my-key'' @ [dquote], [], ''replicas'']"
    by (rule conjunct1)
  then have r: "formatPath (formatPath_loop
         [''#Config'', ''spec'', ''[0]'', dquote # ''my-key'' @ [dquote], [], ''replicas''] [])
       = ''spec.my-key.replicas''"
    by (simp only: v)
  have h': "list_all (\<lambda>p. \<not> isValidPathElement p \<or> isValidPathElement (strings_Trim p [dquote]))
      [''#Config'', ''spec'', ''[0]'', dquote # ''my-key'' @ [dquote], [], ''replicas'']"
    using h by (simp only: list_all_iff imp_conv_disj)
  from h' v r show ?thesis by (intro conjI)
qed

subsection \<open>Format dispatch\<close>

text \<open>What \<open>filepath_Ext\<close> returns is a suffix of the path.\<close>

lemma Ext_loop_suffix: "\<exists>stem. rev rest @ scanned = stem @ Ext_loop sep rest scanned"
proof (induction rest arbitrary: scanned)
  case Nil
  show ?case by simp
next
  case (Cons c rest)
  from Cons.IH [of "c # scanned"] show ?case by auto
qed

text \<open>
  C8. For every config path, \<open>parseConfigFile\<close> dispatches on the lowercased extension (the
  suffix of the path that \<^verbatim>\<open>filepath.Ext\<close> returns): \<^verbatim>\<open>.yaml\<close> and \<^verbatim>\<open>.yml\<close> go to the YAML
  decoder, \<^verbatim>\<open>.json\<close> goes to the JSON decoder, and any other extension fails with the
  message \<^verbatim>\<open>unsupported file format: \<close>, the extension, and the supported set, without any
  call to a decoder (the log is returned unchanged).
\<close>

theorem parseConfigFile_dispatch:
  assumes "ext = strings_ToLower env (filepath_Ext env configPath)"
  shows "(\<exists>stem. configPath = stem @ filepath_Ext env configPath)
     \<and> (ext = ''.yaml'' \<or> ext = ''.yml'' \<longrightarrow>
          parseConfigFile env configPath configData t = parseYAML env configPath configData t)
     \<and> (ext = ''.json'' \<longrightarrow>
          parseConfigFile env configPath configData t = parseJSON env configPath configData t)
     \<and> (ext \<noteq> ''.yaml'' \<and> ext \<noteq> ''.yml'' \<and> ext \<noteq> ''.json'' \<longrightarrow>
          parseConfigFile env configPath configData t =
            (Inl (''unsupported file format: '' @ ext @ '' (supported: .yaml, .yml, .json)''), t))"
proof -
  have "\<exists>stem. configPath = stem @ filepath_Ext env configPath"
    using Ext_loop_suffix [of "rev configPath" "[]" "IsPathSeparator env"]
    by (simp add: filepath_Ext_def)
  then show ?thesis
    using assms by (simp add: parseConfigFile_def)
qed

theorem parseConfigFile_dispatch_witness:
  "strings_ToLower (test_engine test_fs) (filepath_Ext (test_engine test_fs) ''conf.d/A.YML'') = ''.yml''
   \<and> parseConfigFile (test_engine test_fs) ''conf.d/A.YML'' ''{a:1}'' []
       = (Inr ''{a:1}'', [EvYAMLExtract ''conf.d/A.YML'', EvBuildFile])
   \<and> strings_ToLower (test_engine test_fs) (filepath_Ext (test_engine test_fs) ''other.JSON'') = ''.json''
   \<and> parseConfigFile (test_engine test_fs) ''other.JSON'' ''{a:2}'' []
       = (Inr ''{a:2}'', [EvJSONExtract ''other.JSON'', EvBuildExpr])
   \<and> strings_ToLower (test_engine test_fs) (filepath_Ext (test_engine test_fs) ''c.toml'') = ''.toml''
   \<and> parseConfigFile (test_engine test_fs) ''c.toml'' ''a = 1'' []
       = (Inl ''unsupported file format: .toml (supported: .yaml, .yml, .json)'', [])
   \<and> strings_ToLower (test_engine test_fs) (filepath_Ext (test_engine test_fs) ''dir.yaml/x'') = []
   \<and> parseConfigFile (test_engine test_fs) ''dir.yaml/x'' ''a: 1'' []
       = (Inl ''unsupported file format:  (supported: .yaml, .yml, .json)'', [])"
proof -
  have y: "strings_ToLower (test_engine test_fs) (filepath_Ext (test_engine test_fs) ''conf.d/A.YML'') = ''.yml''"
    by code_simp
  have j: "strings_ToLower (test_engine test_fs) (filepath_Ext (test_engine test_fs) ''other.JSON'') = ''.json''"
    by code_simp
  have u: "strings_ToLower (test_engine test_fs) (filepath_Ext (test_engine test_fs) ''c.toml'') = ''.toml''"
    by code_simp
  have n: "strings_ToLower (test_engine test_fs) (filepath_Ext (test_engine test_fs) ''dir.yaml/x'') = []"
    by code_simp
  have py: "parseYAML (test_engine test_fs) ''conf.d/A.YML'' ''{a:1}'' []
       = (Inr ''{a:1}'', [EvYAMLExtract ''conf.d/A.YML'', EvBuildFile])"
    by code_simp
  have pj: "parseJSON (test_engine test_fs) ''other.JSON'' ''{a:2}'' []
       = (Inr ''{a:2}'', [EvJSONExtract ''other.JSON'', EvBuildExpr])"
    by code_simp
  have 1: "parseConfigFile (test_engine test_fs) ''conf.d/A.YML'' ''{a:1}'' []
       = (Inr ''{a:1}'', [EvYAMLExtract ''conf.d/A.YML'', EvBuildFile])"
    using parseConfigFile_dispatch [OF y [symmetric], of "''{a:1}''" "[]"] py by simp
  have 2: "parseConfigFile (test_engine test_fs) ''other.JSON'' ''{a:2}'' []
       = (Inr ''{a:2}'', [EvJSONExtract ''other.JSON'', EvBuildExpr])"
    using parseConfigFile_dispatch [OF j [symmetric], of "''{a:2}''" "[]"] pj by simp
  have 3: "parseConfigFile (test_engine test_fs) ''c.toml'' ''a = 1'' []
       = (Inl ''unsupported file format: .toml (supported: .yaml, .yml, .json)'', [])"
    using parseConfigFile_dispatch [OF u [symmetric], of "''a = 1''" "[]"] by simp
  have 4: "parseConfigFile (test_engine test_fs) ''dir.yaml/x'' ''a: 1'' []
       = (Inl ''unsupported file format:  (supported: .yaml, .yml, .json)'', [])"
    using parseConfigFile_dispatch [OF n [symmetric], of "''a: 1''" "[]"] by simp
  from y j u n 1 2 3 4 show ?thesis by blast
qed

subsection \<open>A schema without the root definition\<close>

text \<open>
  C4, as stated, fails. The lookup of \<^verbatim>\<open>#Config\<close> is made inside \<open>validateFile\<close>, after the
  file has been read and decoded. With a schema that compiles but does not define
  \<^verbatim>\<open>#Config\<close>, the config file \<^verbatim>\<open>ok.yaml\<close> is read and decoded before the missing definition
  is reported, and the unreadable \<^verbatim>\<open>gone.yaml\<close> gets its own read error, not a schema error.
\<close>

theorem missing_Config_files_still_read_counterexample:
  "loadSchema (test_engine test_fs) ''nodef.cue'' [] =
     (Inr ''{a:1}'', [EvReadFile ''nodef.cue'', EvCompileBytes ''nodef.cue''])
   \<and> \<not> Exists (test_engine test_fs) (LookupPath (test_engine test_fs) ''{a:1}'' ''#Config'')
   \<and> ValidateFiles (test_engine test_fs) ''nodef.cue'' [''ok.yaml'', ''gone.yaml''] [] =
       ([\<lparr>FileName = ''ok.yaml'', IsValid = False,
          Errors = [\<lparr>Line = 0, Field' = [], Problem = ''schema does not define #Config''\<rparr>]\<rparr>,
         \<lparr>FileName = ''gone.yaml'', IsValid = False,
          Errors = [\<lparr>Line = 0, Field' = [],
            Problem = ''failed to read file: open gone.yaml: no such file or directory''\<rparr>]\<rparr>],
        [EvReadFile ''nodef.cue'', EvCompileBytes ''nodef.cue'',
         EvReadFile ''ok.yaml'', EvYAMLExtract ''ok.yaml'', EvBuildFile, EvLookupPath ''#Config'',
         EvReadFile ''gone.yaml''])"
  by code_simp

text \<open>The calls made for one file when the schema does not define \<^verbatim>\<open>#Config\<close>.\<close>

lemma parseConfigFile_events:
  "set (snd (parseConfigFile env p d t))
     \<subseteq> set t \<union> {EvYAMLExtract p, EvJSONExtract p, EvBuildFile, EvBuildExpr}"
  by (auto simp add: parseConfigFile_def parseYAML_def parseJSON_def Let_def split: sum.splits)

lemma validateFile_missing_Config:
  assumes "\<not> Exists env (LookupPath env schema ''#Config'')"
  shows "\<not> IsValid (fst (validateFile env schema p t))"
    and "EvUnify \<notin> set (snd (validateFile env schema p []))"
    and "EvValidate \<notin> set (snd (validateFile env schema p []))"
    and "EvReadFile p \<in> set (snd (validateFile env schema p []))"
proof -
  show "\<not> IsValid (fst (validateFile env schema p t))"
    using assms
    by (simp add: validateFile_def createErrorResult_def createValidationErrorResult_def Let_def
        split: sum.splits prod.splits option.splits)
  have ev: "\<And>d r es. parseConfigFile env p d [EvReadFile p] = (r, es) \<Longrightarrow>
      EvUnify \<notin> set es \<and> EvValidate \<notin> set es \<and> EvReadFile p \<in> set es"
  proof -
    fix d r es
    assume pc: "parseConfigFile env p d [EvReadFile p] = (r, es)"
    have "es = [EvReadFile p] @ snd (parseConfigFile env p d [])"
      using parseConfigFile_log [of env p d "[EvReadFile p]"] pc by simp
    moreover have "set (snd (parseConfigFile env p d []))
        \<subseteq> {EvYAMLExtract p, EvJSONExtract p, EvBuildFile, EvBuildExpr}"
      using parseConfigFile_events [of env p d "[]"] by simp
    ultimately show "EvUnify \<notin> set es \<and> EvValidate \<notin> set es \<and> EvReadFile p \<in> set es"
      by auto
  qed
  show "EvUnify \<notin> set (snd (validateFile env schema p []))"
    using assms ev
    by (auto simp add: validateFile_def Let_def split: sum.splits prod.splits option.splits)
  show "EvValidate \<notin> set (snd (validateFile env schema p []))"
    using assms ev
    by (auto simp add: validateFile_def Let_def split: sum.splits prod.splits option.splits)
  show "EvReadFile p \<in> set (snd (validateFile env schema p []))"
    using assms ev
    by (auto simp add: validateFile_def Let_def split: sum.splits prod.splits option.splits)
qed

lemma validateFile_missing_Config_decoded:
  assumes "\<not> Exists env (LookupPath env schema ''#Config'')"
    and "ReadFile env p = Inr configData"
    and "parseConfigFile env p configData t2 = (Inr config, t3)"
    and "Err env config = None"
  shows "fst (validateFile env schema p t) =
           \<lparr>FileName = p, IsValid = False,
            Errors = [\<lparr>Line = 0, Field' = [], Problem = ''schema does not define #Config''\<rparr>]\<rparr>"
proof -
  have "fst (parseConfigFile env p configData []) = Inr config"
    using parseConfigFile_log [of env p configData t2] assms(3) by simp
  then have "parseConfigFile env p configData (t @ [EvReadFile p])
      = (Inr config, (t @ [EvReadFile p]) @ snd (parseConfigFile env p configData []))"
    using parseConfigFile_log [of env p configData "t @ [EvReadFile p]"] by simp
  then show ?thesis
    using assms(1,2,4)
    by (simp add: validateFile_def createErrorResult_def Let_def
        split: sum.splits prod.splits option.splits)
qed

text \<open>A file that can be read is handed to the decoder of its extension.\<close>

lemma parseConfigFile_decoder_called:
  "(strings_ToLower env (filepath_Ext env p) = ''.yaml''
      \<or> strings_ToLower env (filepath_Ext env p) = ''.yml''
        \<longrightarrow> EvYAMLExtract p \<in> set (snd (parseConfigFile env p d t)))
   \<and> (strings_ToLower env (filepath_Ext env p) = ''.json''
        \<longrightarrow> EvJSONExtract p \<in> set (snd (parseConfigFile env p d t)))"
  by (simp add: parseConfigFile_def parseYAML_def parseJSON_def Let_def split: sum.splits)

lemma validateFile_keeps_parse_log:
  assumes "ReadFile env p = Inr d"
  shows "set (snd (parseConfigFile env p d [EvReadFile p])) \<subseteq> set (snd (validateFile env schema p []))"
  using assms
  by (auto simp add: validateFile_def Let_def split: sum.splits prod.splits option.splits)

lemma validateFile_decoder_called:
  assumes "ReadFile env p = Inr d"
  shows "(strings_ToLower env (filepath_Ext env p) = ''.yaml''
      \<or> strings_ToLower env (filepath_Ext env p) = ''.yml''
        \<longrightarrow> EvYAMLExtract p \<in> set (snd (validateFile env schema p [])))
   \<and> (strings_ToLower env (filepath_Ext env p) = ''.json''
        \<longrightarrow> EvJSONExtract p \<in> set (snd (validateFile env schema p [])))"
  using parseConfigFile_decoder_called [of env p d "[EvReadFile p]"]
    validateFile_keeps_parse_log [OF assms, of schema]
  by blast

text \<open>
  C4, amended. If the compiled schema lacks the top-level \<^verbatim>\<open>#Config\<close> definition, then no
  file is unified with or validated against the schema and no result is valid; every
  config file is still read, and decoded when its extension is supported (the YAML or
  JSON decoder is called on every file that could be read); a file that is read and
  decoded without error gets exactly one error \<^verbatim>\<open>schema does not define #Config\<close> with
  \<open>Line\<close> 0 and empty \<open>Field\<close>.
\<close>

theorem missing_Config_definition:
  assumes "loadSchema env schemaPath t = (Inr schema, t1)"
    and "\<not> Exists env (LookupPath env schema ''#Config'')"
  shows "(\<forall>r\<in>set (fst (ValidateFiles env schemaPath configPaths t)). \<not> IsValid r)
     \<and> (\<exists>es. snd (ValidateFiles env schemaPath configPaths t) = t1 @ es
           \<and> EvUnify \<notin> set es \<and> EvValidate \<notin> set es
           \<and> (\<forall>p\<in>set configPaths. EvReadFile p \<in> set es)
           \<and> (\<forall>p\<in>set configPaths. \<forall>configData. ReadFile env p = Inr configData \<longrightarrow>
                 (strings_ToLower env (filepath_Ext env p) = ''.yaml''
                    \<or> strings_ToLower env (filepath_Ext env p) = ''.yml''
                      \<longrightarrow> EvYAMLExtract p \<in> set es)
                 \<and> (strings_ToLower env (filepath_Ext env p) = ''.json''
                      \<longrightarrow> EvJSONExtract p \<in> set es)))
     \<and> (\<forall>i<length configPaths. \<forall>configData config t2 t3.
           ReadFile env (configPaths ! i) = Inr configData
           \<and> parseConfigFile env (configPaths ! i) configData t2 = (Inr config, t3)
           \<and> Err env config = None \<longrightarrow>
           fst (ValidateFiles env schemaPath configPaths t) ! i =
             \<lparr>FileName = configPaths ! i, IsValid = False,
              Errors = [\<lparr>Line = 0, Field' = [],
                         Problem = ''schema does not define #Config''\<rparr>]\<rparr>)"
proof -
  let ?es = "concat (map (\<lambda>p. snd (validateFile env schema p [])) configPaths)"
  have res: "fst (ValidateFiles env schemaPath configPaths t)
      = map (\<lambda>p. fst (validateFile env schema p [])) configPaths"
    and log: "snd (ValidateFiles env schemaPath configPaths t) = t1 @ ?es"
    using assms(1) by (simp_all add: ValidateFiles_cases)
  have a: "\<forall>r\<in>set (fst (ValidateFiles env schemaPath configPaths t)). \<not> IsValid r"
    using validateFile_missing_Config(1) [OF assms(2)] by (auto simp add: res)
  have own: "\<And>p. p \<in> set configPaths \<Longrightarrow> set (snd (validateFile env schema p [])) \<subseteq> set ?es"
    by auto
  have "EvUnify \<notin> set ?es" "EvValidate \<notin> set ?es"
    using validateFile_missing_Config(2,3) [OF assms(2)] by auto
  moreover have "\<forall>p\<in>set configPaths. EvReadFile p \<in> set ?es"
    using validateFile_missing_Config(4) [OF assms(2)] by auto
  moreover have "\<forall>p\<in>set configPaths. \<forall>configData. ReadFile env p = Inr configData \<longrightarrow>
                 (strings_ToLower env (filepath_Ext env p) = ''.yaml''
                    \<or> strings_ToLower env (filepath_Ext env p) = ''.yml''
                      \<longrightarrow> EvYAMLExtract p \<in> set ?es)
                 \<and> (strings_ToLower env (filepath_Ext env p) = ''.json''
                      \<longrightarrow> EvJSONExtract p \<in> set ?es)"
  proof (intro ballI allI impI)
    fix p configData
    assume p: "p \<in> set configPaths" and rd: "ReadFile env p = Inr configData"
    show "(strings_ToLower env (filepath_Ext env p) = ''.yaml''
                    \<or> strings_ToLower env (filepath_Ext env p) = ''.yml''
                      \<longrightarrow> EvYAMLExtract p \<in> set ?es)
                 \<and> (strings_ToLower env (filepath_Ext env p) = ''.json''
                      \<longrightarrow> EvJSONExtract p \<in> set ?es)"
      using validateFile_decoder_called [OF rd, of schema] own [OF p] by blast
  qed
  ultimately have b: "\<exists>es. snd (ValidateFiles env schemaPath configPaths t) = t1 @ es
           \<and> EvUnify \<notin> set es \<and> EvValidate \<notin> set es
           \<and> (\<forall>p\<in>set configPaths. EvReadFile p \<in> set es)
           \<and> (\<forall>p\<in>set configPaths. \<forall>configData. ReadFile env p = Inr configData \<longrightarrow>
                 (strings_ToLower env (filepath_Ext env p) = ''.yaml''
                    \<or> strings_ToLower env (filepath_Ext env p) = ''.yml''
                      \<longrightarrow> EvYAMLExtract p \<in> set es)
                 \<and> (strings_ToLower env (filepath_Ext env p) = ''.json''
                      \<longrightarrow> EvJSONExtract p \<in> set es))"
    using log by (intro exI [of _ ?es] conjI)
  have c: "\<forall>i<length configPaths. \<forall>configData config t2 t3.
           ReadFile env (configPaths ! i) = Inr configData
           \<and> parseConfigFile env (configPaths ! i) configData t2 = (Inr config, t3)
           \<and> Err env config = None \<longrightarrow>
           fst (ValidateFiles env schemaPath configPaths t) ! i =
             \<lparr>FileName = configPaths ! i, IsValid = False,
              Errors = [\<lparr>Line = 0, Field' = [],
                         Problem = ''schema does not define #Config''\<rparr>]\<rparr>"
    using validateFile_missing_Config_decoded [OF assms(2)] by (auto simp add: res)
  from a b c show ?thesis by (intro conjI)
qed

theorem missing_Config_definition_witness:
  "loadSchema (test_engine test_fs) ''nodef.cue'' [EvValidate] =
     (Inr ''{a:1}'', [EvValidate, EvReadFile ''nodef.cue'', EvCompileBytes ''nodef.cue''])
   \<and> \<not> Exists (test_engine test_fs) (LookupPath (test_engine test_fs) ''{a:1}'' ''#Config'')
   \<and> (0::nat) < length [''ok.yaml'', ''gone.yaml'']
   \<and> ReadFile (test_engine test_fs) ([''ok.yaml'', ''gone.yaml''] ! 0) = Inr ''{a:1}''
   \<and> parseConfigFile (test_engine test_fs) ([''ok.yaml'', ''gone.yaml''] ! 0) ''{a:1}'' []
        = (Inr ''{a:1}'', [EvYAMLExtract ''ok.yaml'', EvBuildFile])
   \<and> Err (test_engine test_fs) ''{a:1}'' = None
   \<and> fst (ValidateFiles (test_engine test_fs) ''nodef.cue'' [''ok.yaml'', ''gone.yaml''] [EvValidate]) ! 0
        = \<lparr>FileName = ''ok.yaml'', IsValid = False,
           Errors = [\<lparr>Line = 0, Field' = [], Problem = ''schema does not define #Config''\<rparr>]\<rparr>
   \<and> list_all (\<lambda>r. \<not> IsValid r)
         (fst (ValidateFiles (test_engine test_fs) ''nodef.cue''
                 [''ok.yaml'', ''gone.yaml''] [EvValidate]))
   \<and> strings_ToLower (test_engine test_fs) (filepath_Ext (test_engine test_fs) ''ok.yaml'') = ''.yaml''
   \<and> EvReadFile ''ok.yaml''
        \<in> set (snd (ValidateFiles (test_engine test_fs) ''nodef.cue''
                       [''ok.yaml'', ''gone.yaml''] [EvValidate]))
   \<and> EvYAMLExtract ''ok.yaml''
        \<in> set (snd (ValidateFiles (test_engine test_fs) ''nodef.cue''
                       [''ok.yaml'', ''gone.yaml''] [EvValidate]))"
proof -
  have h1: "loadSchema (test_engine test_fs) ''nodef.cue'' [EvValidate] =
     (Inr ''{a:1}'', [EvValidate, EvReadFile ''nodef.cue'', EvCompileBytes ''nodef.cue''])"
    by code_simp
  have h2: "\<not> Exists (test_engine test_fs) (LookupPath (test_engine test_fs) ''{a:1}'' ''#Config'')"
    by code_simp
  have h3: "(0::nat) < length [''ok.yaml'', ''gone.yaml'']"
    by simp
  have h4: "ReadFile (test_engine test_fs) ([''ok.yaml'', ''gone.yaml''] ! 0) = Inr ''{a:1}''"
    by code_simp
  have h5: "parseConfigFile (test_engine test_fs) ([''ok.yaml'', ''gone.yaml''] ! 0) ''{a:1}'' []
        = (Inr ''{a:1}'', [EvYAMLExtract ''ok.yaml'', EvBuildFile])"
    by code_simp
  have h6: "Err (test_engine test_fs) ''{a:1}'' = None"
    by code_simp
  have h7: "strings_ToLower (test_engine test_fs) (filepath_Ext (test_engine test_fs) ''ok.yaml'') = ''.yaml''"
    by code_simp
  have h8: "ReadFile (test_engine test_fs) ''ok.yaml'' = Inr ''{a:1}''"
    by code_simp
  have h9: "''ok.yaml'' \<in> set [''ok.yaml'', ''gone.yaml'']"
    by simp
  note inst = missing_Config_definition [OF h1 h2, of "[''ok.yaml'', ''gone.yaml'']"]
  have r0: "fst (ValidateFiles (test_engine test_fs) ''nodef.cue'' [''ok.yaml'', ''gone.yaml''] [EvValidate]) ! 0
        = \<lparr>FileName = [''ok.yaml'', ''gone.yaml''] ! 0, IsValid = False,
           Errors = [\<lparr>Line = 0, Field' = [], Problem = ''schema does not define #Config''\<rparr>]\<rparr>"
    using inst h3 h4 h5 h6 by blast
  have "\<forall>r\<in>set (fst (ValidateFiles (test_engine test_fs) ''nodef.cue''
                        [''ok.yaml'', ''gone.yaml''] [EvValidate])). \<not> IsValid r"
    using inst by blast
  then have r1: "list_all (\<lambda>r. \<not> IsValid r)
         (fst (ValidateFiles (test_engine test_fs) ''nodef.cue''
                 [''ok.yaml'', ''gone.yaml''] [EvValidate]))"
    by (simp only: list_all_iff)
  have r0': "fst (ValidateFiles (test_engine test_fs) ''nodef.cue'' [''ok.yaml'', ''gone.yaml''] [EvValidate]) ! 0
        = \<lparr>FileName = ''ok.yaml'', IsValid = False,
           Errors = [\<lparr>Line = 0, Field' = [], Problem = ''schema does not define #Config''\<rparr>]\<rparr>"
    using r0 by simp
  from inst obtain es where
    es: "snd (ValidateFiles (test_engine test_fs) ''nodef.cue'' [''ok.yaml'', ''gone.yaml''] [EvValidate])
           = [EvValidate, EvReadFile ''nodef.cue'', EvCompileBytes ''nodef.cue''] @ es"
    and rd: "\<forall>p\<in>set [''ok.yaml'', ''gone.yaml'']. EvReadFile p \<in> set es"
    and dec: "\<forall>p\<in>set [''ok.yaml'', ''gone.yaml''].
        \<forall>configData. ReadFile (test_engine test_fs) p = Inr configData \<longrightarrow>
          (strings_ToLower (test_engine test_fs) (filepath_Ext (test_engine test_fs) p) = ''.yaml''
             \<or> strings_ToLower (test_engine test_fs) (filepath_Ext (test_engine test_fs) p) = ''.yml''
               \<longrightarrow> EvYAMLExtract p \<in> set es)
          \<and> (strings_ToLower (test_engine test_fs) (filepath_Ext (test_engine test_fs) p) = ''.json''
               \<longrightarrow> EvJSONExtract p \<in> set es)"
    by blast
  have "EvReadFile ''ok.yaml'' \<in> set es"
    using rd h9 by (rule bspec)
  then have r2: "EvReadFile ''ok.yaml''
        \<in> set (snd (ValidateFiles (test_engine test_fs) ''nodef.cue''
                       [''ok.yaml'', ''gone.yaml''] [EvValidate]))"
    by (simp only: es set_append UnI2)
  have "EvYAMLExtract ''ok.yaml'' \<in> set es"
    using bspec [OF dec h9] h8 h7 by blast
  then have r3: "EvYAMLExtract ''ok.yaml''
        \<in> set (snd (ValidateFiles (test_engine test_fs) ''nodef.cue''
                       [''ok.yaml'', ''gone.yaml''] [EvValidate]))"
    by (simp only: es set_append UnI2)
  from h1 h2 h3 h4 h5 h6 r0' r1 h7 r2 r3 show ?thesis by (intro conjI)
qed

subsection \<open>Isolation between files\<close>

text \<open>The result for one file depends on the file system only through that file.\<close>

lemma parseConfigFile_ReadFile_update:
  "parseConfigFile (env\<lparr>ReadFile := fs'\<rparr>) p d t = parseConfigFile env p d t"
  by (simp add: parseConfigFile_def parseYAML_def parseJSON_def strings_ToLower_def
      filepath_Ext_def Let_def split: sum.splits)

lemma validateFile_ReadFile_update:
  assumes "fs' p = ReadFile env p"
  shows "validateFile (env\<lparr>ReadFile := fs'\<rparr>) schema p t = validateFile env schema p t"
  using assms
  by (simp add: validateFile_def parseConfigFile_ReadFile_update Let_def
      split: sum.splits prod.splits option.splits)

text \<open>
  C9. Per-file isolation. When the schema loads, the result for config path \<open>i\<close> is the
  result of \<open>validateFile\<close> on the compiled schema and that path alone: two runs with the
  same engine and the same compiled schema, whose file systems agree on path \<open>i\<close> (its
  contents or its read error), produce the same result \<open>i\<close>, whatever the other files
  hold, whether they can be read, and whatever was logged before.
\<close>

theorem per_file_isolation:
  assumes "loadSchema env schemaPath t = (Inr schema, t1)"
    and "loadSchema (env\<lparr>ReadFile := fs'\<rparr>) schemaPath t' = (Inr schema, t1')"
    and "i < length configPaths"
    and "fs' (configPaths ! i) = ReadFile env (configPaths ! i)"
  shows "fst (ValidateFiles (env\<lparr>ReadFile := fs'\<rparr>) schemaPath configPaths t') ! i
           = fst (ValidateFiles env schemaPath configPaths t) ! i
         \<and> fst (ValidateFiles env schemaPath configPaths t) ! i
           = fst (validateFile env schema (configPaths ! i) [])"
  using assms by (simp add: ValidateFiles_cases validateFile_ReadFile_update)

text \<open>The run of \<open>test_run\<close> again, with the second file unreadable.\<close>

lemma test_run_other_unreadable:
  "ValidateFiles (test_engine test_fs\<lparr>ReadFile := test_fs'\<rparr>) ''schema.cue''
       [''ok.yaml'', ''other.JSON''] [EvUnify] =
     ([\<lparr>FileName = ''ok.yaml'', IsValid = True, Errors = []\<rparr>,
       \<lparr>FileName = ''other.JSON'', IsValid = False,
        Errors = [\<lparr>Line = 0, Field' = [],
                   Problem = ''failed to read file: open other.JSON: permission denied''\<rparr>]\<rparr>],
      [EvUnify, EvReadFile ''schema.cue'', EvCompileBytes ''schema.cue'',
       EvReadFile ''ok.yaml'', EvYAMLExtract ''ok.yaml'', EvBuildFile,
       EvLookupPath ''#Config'', EvUnify, EvValidate, EvReadFile ''other.JSON''])"
  by code_simp

theorem per_file_isolation_witness:
  "loadSchema (test_engine test_fs) ''schema.cue'' [] =
     (Inr ''#Config{a:1}'', [EvReadFile ''schema.cue'', EvCompileBytes ''schema.cue''])
   \<and> loadSchema (test_engine test_fs\<lparr>ReadFile := test_fs'\<rparr>) ''schema.cue'' [EvUnify] =
     (Inr ''#Config{a:1}'', [EvUnify, EvReadFile ''schema.cue'', EvCompileBytes ''schema.cue''])
   \<and> (0::nat) < length [''ok.yaml'', ''other.JSON'']
   \<and> test_fs' ([''ok.yaml'', ''other.JSON''] ! 0) = ReadFile (test_engine test_fs) ([''ok.yaml'', ''other.JSON''] ! 0)
   \<and> test_fs' ''other.JSON'' \<noteq> ReadFile (test_engine test_fs) ''other.JSON''
   \<and> fst (ValidateFiles (test_engine test_fs\<lparr>ReadFile := test_fs'\<rparr>) ''schema.cue''
             [''ok.yaml'', ''other.JSON''] [EvUnify]) ! 0
       = fst (ValidateFiles (test_engine test_fs) ''schema.cue'' [''ok.yaml'', ''other.JSON''] []) ! 0
   \<and> fst (ValidateFiles (test_engine test_fs\<lparr>ReadFile := test_fs'\<rparr>) ''schema.cue''
             [''ok.yaml'', ''other.JSON''] [EvUnify]) ! 1
       \<noteq> fst (ValidateFiles (test_engine test_fs) ''schema.cue'' [''ok.yaml'', ''other.JSON''] []) ! 1"
proof -
  have h1: "loadSchema (test_engine test_fs) ''schema.cue'' [] =
     (Inr ''#Config{a:1}'', [EvReadFile ''schema.cue'', EvCompileBytes ''schema.cue''])"
    by code_simp
  have h2: "loadSchema (test_engine test_fs\<lparr>ReadFile := test_fs'\<rparr>) ''schema.cue'' [EvUnify] =
     (Inr ''#Config{a:1}'', [EvUnify, EvReadFile ''schema.cue'', EvCompileBytes ''schema.cue''])"
    by code_simp
  have h3: "(0::nat) < length [''ok.yaml'', ''other.JSON'']"
    by simp
  have h4: "test_fs' ([''ok.yaml'', ''other.JSON''] ! 0)
      = ReadFile (test_engine test_fs) ([''ok.yaml'', ''other.JSON''] ! 0)"
    by code_simp
  have h5: "test_fs' ''other.JSON'' \<noteq> ReadFile (test_engine test_fs) ''other.JSON''"
    by code_simp
  have h6: "fst (ValidateFiles (test_engine test_fs\<lparr>ReadFile := test_fs'\<rparr>) ''schema.cue''
             [''ok.yaml'', ''other.JSON''] [EvUnify]) ! 1
       \<noteq> fst (ValidateFiles (test_engine test_fs) ''schema.cue'' [''ok.yaml'', ''other.JSON''] []) ! 1"
    by (simp add: test_run test_run_other_unreadable)
  show ?thesis
    using h1 h2 h3 h4 h5 h6 per_file_isolation [OF h1 h2 h3 h4] by blast
qed

end
